theory Spec2Isabelle
  imports Main "HOL-Library.Word" "HOL-Library.Multiset"
begin

section \<open>The DeFiAgentFHE contract\<close>

text \<open>
  A shallow embedding of the Solidity contract \<^verbatim>\<open>DeFiAgentFHE\<close> (the second document of
  \<^verbatim>\<open>src/frontend/web/src/app.tsx\<close>, \<^verbatim>\<open>pragma solidity ^0.8.24\<close>).

  \<^item> \<^verbatim>\<open>uint256\<close> and \<^verbatim>\<open>bytes32\<close> are 256-bit words, \<^verbatim>\<open>address\<close> is a 160-bit word.
    Solidity 0.8 checks \<^verbatim>\<open>+\<close> and \<^verbatim>\<open>++\<close>: an overflow reverts with a panic, which is the
    error \<open>Panic\<close> here. A slice that reaches past the end of its array reverts too:
    the error \<open>DecodeFailure\<close>.
  \<^item> \<^verbatim>\<open>euint32\<close> is the FHE library's handle type, a \<^verbatim>\<open>bytes32\<close>; storage that was never
    written holds the handle 0.
  \<^item> Every \<^verbatim>\<open>mapping\<close> is a total function whose default value is the zero of its type.
  \<^item> A revert is the left injection of the result: no state is returned, so a reverted
    call commits nothing. A successful call returns the new contract state, whose
    \<open>events\<close> field is the log with the emitted events appended.
  \<^item> The FHE library (\<^verbatim>\<open>@fhevm/solidity/lib/FHE.sol\<close>), \<^verbatim>\<open>keccak256(abi.encode(...))\<close> and
    \<^verbatim>\<open>address(this)\<close> are outside the repository: they are the fields of the
    parameter \<open>E\<close> of every operation that uses them.
\<close>

type_synonym uint256 = "256 word"
type_synonym bytes32 = "256 word"
type_synonym address = "160 word"
type_synonym euint32 = bytes32
type_synonym bytes = "8 word list"

subsection \<open>The external engine\<close>

record fhe =
  asEuint32 :: "32 word \<Rightarrow> euint32"
  fhe_add :: "euint32 \<Rightarrow> euint32 \<Rightarrow> euint32"
  fhe_sub :: "euint32 \<Rightarrow> euint32 \<Rightarrow> euint32"
  isInitialized :: "euint32 \<Rightarrow> bool"
  toBytes32 :: "euint32 \<Rightarrow> bytes32"
  checkSignatures :: "uint256 \<Rightarrow> bytes \<Rightarrow> bytes \<Rightarrow> bool"
  keccak256_encode :: "bytes32 list \<Rightarrow> address \<Rightarrow> bytes32"
  this_address :: address

subsection \<open>Storage, events and errors\<close>

record DecryptionContext =
  batchId :: uint256
  stateHash :: bytes32
  processed :: bool

record UserPortfolioState =
  totalValueEncrypted :: euint32
  riskPreferenceEncrypted :: euint32
  targetAllocation1Encrypted :: euint32
  targetAllocation2Encrypted :: euint32
  currentAllocation1Encrypted :: euint32
  currentAllocation2Encrypted :: euint32

record BatchAggregatedResults =
  totalValueSumEncrypted :: euint32
  riskPreferenceSumEncrypted :: euint32
  rebalanceAmount1Encrypted :: euint32
  rebalanceAmount2Encrypted :: euint32

datatype event =
    OwnershipTransferred address address
  | ProviderAdded address
  | ProviderRemoved address
  | ContractPaused address
  | ContractUnpaused address
  | CooldownSecondsSet uint256 uint256
  | BatchOpened uint256
  | BatchClosed uint256
  | PortfolioDataSubmitted address uint256
  | DecryptionRequested uint256 uint256
  | DecryptionCompleted uint256 uint256 uint256 uint256 uint256 uint256

datatype error =
    NotOwner
  | NotProvider
  | Paused
  | CooldownActive
  | BatchClosedOrInvalid
  | ReplayAttempt
  | StateMismatch
  | InvalidProof
  | NotInitialized
  | Panic
  | DecodeFailure

record contract =
  owner :: address
  providers :: "address \<Rightarrow> bool"
  paused :: bool
  cooldownSeconds :: uint256
  lastSubmissionTime :: "address \<Rightarrow> uint256"
  lastDecryptionRequestTime :: "address \<Rightarrow> uint256"
  currentBatchId :: uint256
  batchClosed :: "uint256 \<Rightarrow> bool"
  decryptionContexts :: "uint256 \<Rightarrow> DecryptionContext"
  userStates :: "address \<Rightarrow> UserPortfolioState"
  batchResults :: "uint256 \<Rightarrow> BatchAggregatedResults"
  events :: "event list"

text \<open>The zero values that unwritten storage holds.\<close>

definition zeroContext :: DecryptionContext where
  "zeroContext = \<lparr>batchId = 0, stateHash = 0, processed = False\<rparr>"

definition zeroUserState :: UserPortfolioState where
  "zeroUserState = \<lparr>totalValueEncrypted = 0, riskPreferenceEncrypted = 0,
     targetAllocation1Encrypted = 0, targetAllocation2Encrypted = 0,
     currentAllocation1Encrypted = 0, currentAllocation2Encrypted = 0\<rparr>"

definition zeroResults :: BatchAggregatedResults where
  "zeroResults = \<lparr>totalValueSumEncrypted = 0, riskPreferenceSumEncrypted = 0,
     rebalanceAmount1Encrypted = 0, rebalanceAmount2Encrypted = 0\<rparr>"

text \<open>Checked addition of Solidity 0.8: the sum, or a panic when it does not fit.\<close>

definition checked_add :: "uint256 \<Rightarrow> uint256 \<Rightarrow> error + uint256" where
  "checked_add a b = (if unat a + unat b < 2 ^ 256 then Inr (a + b) else Inl Panic)"

subsection \<open>Construction and administration\<close>

definition constructor :: "address \<Rightarrow> contract" where
  "constructor sender =
     \<lparr>owner = sender,
      providers = (\<lambda>_. False)(sender := True),
      paused = False,
      cooldownSeconds = 60,
      lastSubmissionTime = (\<lambda>_. 0),
      lastDecryptionRequestTime = (\<lambda>_. 0),
      currentBatchId = 1,
      batchClosed = (\<lambda>_. False),
      decryptionContexts = (\<lambda>_. zeroContext),
      userStates = (\<lambda>_. zeroUserState),
      batchResults = (\<lambda>_. zeroResults),
      events = [ProviderAdded sender]\<rparr>"

definition transferOwnership :: "contract \<Rightarrow> address \<Rightarrow> address \<Rightarrow> error + contract" where
  "transferOwnership s sender newOwner =
     (if sender \<noteq> owner s then Inl NotOwner
      else Inr (s\<lparr>owner := newOwner,
                  events := events s @ [OwnershipTransferred (owner s) newOwner]\<rparr>))"

definition addProvider :: "contract \<Rightarrow> address \<Rightarrow> address \<Rightarrow> error + contract" where
  "addProvider s sender provider =
     (if sender \<noteq> owner s then Inl NotOwner
      else Inr (s\<lparr>providers := (providers s)(provider := True),
                  events := events s @ [ProviderAdded provider]\<rparr>))"

definition removeProvider :: "contract \<Rightarrow> address \<Rightarrow> address \<Rightarrow> error + contract" where
  "removeProvider s sender provider =
     (if sender \<noteq> owner s then Inl NotOwner
      else Inr (s\<lparr>providers := (providers s)(provider := False),
                  events := events s @ [ProviderRemoved provider]\<rparr>))"

definition setPaused :: "contract \<Rightarrow> address \<Rightarrow> bool \<Rightarrow> error + contract" where
  "setPaused s sender p =
     (if sender \<noteq> owner s then Inl NotOwner
      else if p then Inr (s\<lparr>paused := True, events := events s @ [ContractPaused sender]\<rparr>)
      else Inr (s\<lparr>paused := False, events := events s @ [ContractUnpaused sender]\<rparr>))"

definition setCooldownSeconds :: "contract \<Rightarrow> address \<Rightarrow> uint256 \<Rightarrow> error + contract" where
  "setCooldownSeconds s sender newCooldownSeconds =
     (if sender \<noteq> owner s then Inl NotOwner
      else Inr (s\<lparr>cooldownSeconds := newCooldownSeconds,
                  events := events s @
                    [CooldownSecondsSet (cooldownSeconds s) newCooldownSeconds]\<rparr>))"

subsection \<open>Batch lifecycle\<close>

definition openNewBatch :: "contract \<Rightarrow> address \<Rightarrow> error + contract" where
  "openNewBatch s sender =
     (if sender \<noteq> owner s then Inl NotOwner
      else if paused s then Inl Paused
      else case checked_add (currentBatchId s) 1 of
        Inl e \<Rightarrow> Inl e
      | Inr n \<Rightarrow> Inr (s\<lparr>currentBatchId := n, events := events s @ [BatchOpened n]\<rparr>))"

definition closeCurrentBatch :: "contract \<Rightarrow> address \<Rightarrow> error + contract" where
  "closeCurrentBatch s sender =
     (if sender \<noteq> owner s then Inl NotOwner
      else if paused s then Inl Paused
      else if currentBatchId s = 0 \<or> batchClosed s (currentBatchId s)
        then Inl BatchClosedOrInvalid
      else Inr (s\<lparr>batchClosed := (batchClosed s)(currentBatchId s := True),
                  events := events s @ [BatchClosed (currentBatchId s)]\<rparr>))"

subsection \<open>Submission and aggregation\<close>

text \<open>
  The body of \<^verbatim>\<open>submitPortfolioData\<close> from the comment "Initialize batch results" on:
  \<open>initResults\<close> is the conditional seeding, \<open>accumulate\<close> the four updates that follow
  it, \<open>aggregate\<close> the two in sequence.
\<close>

definition initResults :: "fhe \<Rightarrow> BatchAggregatedResults \<Rightarrow> BatchAggregatedResults" where
  "initResults E r =
     (if \<not> isInitialized E (totalValueSumEncrypted r)
      then \<lparr>totalValueSumEncrypted = asEuint32 E 0,
            riskPreferenceSumEncrypted = asEuint32 E 0,
            rebalanceAmount1Encrypted = asEuint32 E 0,
            rebalanceAmount2Encrypted = asEuint32 E 0\<rparr>
      else r)"

definition accumulate ::
  "fhe \<Rightarrow> BatchAggregatedResults \<Rightarrow> euint32 \<Rightarrow> euint32 \<Rightarrow> euint32 \<Rightarrow> euint32 \<Rightarrow> euint32 \<Rightarrow> euint32
     \<Rightarrow> BatchAggregatedResults" where
  "accumulate E r tv rp ta1 ta2 ca1 ca2 =
     (let diff1 = fhe_sub E ta1 ca1;
          diff2 = fhe_sub E ta2 ca2
      in \<lparr>totalValueSumEncrypted = fhe_add E (totalValueSumEncrypted r) tv,
          riskPreferenceSumEncrypted = fhe_add E (riskPreferenceSumEncrypted r) rp,
          rebalanceAmount1Encrypted = fhe_add E (rebalanceAmount1Encrypted r) diff1,
          rebalanceAmount2Encrypted = fhe_add E (rebalanceAmount2Encrypted r) diff2\<rparr>)"

definition aggregate ::
  "fhe \<Rightarrow> BatchAggregatedResults \<Rightarrow> euint32 \<Rightarrow> euint32 \<Rightarrow> euint32 \<Rightarrow> euint32 \<Rightarrow> euint32 \<Rightarrow> euint32
     \<Rightarrow> BatchAggregatedResults" where
  "aggregate E r tv rp ta1 ta2 ca1 ca2 =
     accumulate E (initResults E r) tv rp ta1 ta2 ca1 ca2"

definition submitPortfolioData ::
  "fhe \<Rightarrow> contract \<Rightarrow> address \<Rightarrow> uint256 \<Rightarrow>
     euint32 \<Rightarrow> euint32 \<Rightarrow> euint32 \<Rightarrow> euint32 \<Rightarrow> euint32 \<Rightarrow> euint32 \<Rightarrow> error + contract" where
  "submitPortfolioData E s sender now tv rp ta1 ta2 ca1 ca2 =
     (if \<not> providers s sender then Inl NotProvider
      else if paused s then Inl Paused
      else case checked_add (lastSubmissionTime s sender) (cooldownSeconds s) of
        Inl e \<Rightarrow> Inl e
      | Inr until \<Rightarrow>
          if now < until then Inl CooldownActive
          else if batchClosed s (currentBatchId s) then Inl BatchClosedOrInvalid
          else Inr (s\<lparr>lastSubmissionTime := (lastSubmissionTime s)(sender := now),
                      userStates := (userStates s)(sender :=
                        \<lparr>totalValueEncrypted = tv, riskPreferenceEncrypted = rp,
                         targetAllocation1Encrypted = ta1, targetAllocation2Encrypted = ta2,
                         currentAllocation1Encrypted = ca1, currentAllocation2Encrypted = ca2\<rparr>),
                      batchResults := (batchResults s)(currentBatchId s :=
                        aggregate E (batchResults s (currentBatchId s)) tv rp ta1 ta2 ca1 ca2),
                      events := events s @
                        [PortfolioDataSubmitted sender (currentBatchId s)]\<rparr>))"

subsection \<open>Decryption request and callback\<close>

text \<open>The array \<^verbatim>\<open>cts\<close> built from a batch's four accumulators, and its hash.\<close>

definition ciphertexts :: "fhe \<Rightarrow> BatchAggregatedResults \<Rightarrow> bytes32 list" where
  "ciphertexts E r =
     [toBytes32 E (totalValueSumEncrypted r), toBytes32 E (riskPreferenceSumEncrypted r),
      toBytes32 E (rebalanceAmount1Encrypted r), toBytes32 E (rebalanceAmount2Encrypted r)]"

definition hashState :: "fhe \<Rightarrow> BatchAggregatedResults \<Rightarrow> bytes32" where
  "hashState E r = keccak256_encode E (ciphertexts E r) (this_address E)"

text \<open>
  \<^verbatim>\<open>FHE.requestDecryption\<close> returns the request id that the decryption oracle issues;
  the id is the argument \<open>requestId\<close> of the model.
\<close>

definition requestBatchDecryption ::
  "fhe \<Rightarrow> contract \<Rightarrow> address \<Rightarrow> uint256 \<Rightarrow> uint256 \<Rightarrow> uint256 \<Rightarrow> error + contract" where
  "requestBatchDecryption E s sender now bid requestId =
     (if sender \<noteq> owner s then Inl NotOwner
      else if paused s then Inl Paused
      else if batchClosed s bid = False then Inl BatchClosedOrInvalid
      else case checked_add (lastDecryptionRequestTime s sender) (cooldownSeconds s) of
        Inl e \<Rightarrow> Inl e
      | Inr until \<Rightarrow>
          if now < until then Inl CooldownActive
          else if \<not> isInitialized E (totalValueSumEncrypted (batchResults s bid))
            then Inl NotInitialized
          else Inr (s\<lparr>lastDecryptionRequestTime :=
                        (lastDecryptionRequestTime s)(sender := now),
                      decryptionContexts := (decryptionContexts s)(requestId :=
                        \<lparr>batchId = bid, stateHash = hashState E (batchResults s bid),
                         processed = False\<rparr>),
                      events := events s @ [DecryptionRequested requestId bid]\<rparr>))"

text \<open>
  \<^verbatim>\<open>abi.decode(cleartexts[i:i+32], (uint256))\<close>: the big-endian value of 32 bytes.
  The four slices need 128 bytes; a shorter array makes a slice revert. The decoding
  comes after the proof check and before the write of \<open>processed\<close>.
\<close>

definition decode_uint256 :: "bytes \<Rightarrow> uint256" where
  "decode_uint256 bs = foldl (\<lambda>acc b. acc * 256 + ucast b) 0 bs"

definition slice :: "bytes \<Rightarrow> nat \<Rightarrow> nat \<Rightarrow> bytes" where
  "slice bs i j = take (j - i) (drop i bs)"

definition myCallback ::
  "fhe \<Rightarrow> contract \<Rightarrow> address \<Rightarrow> uint256 \<Rightarrow> bytes \<Rightarrow> bytes \<Rightarrow> error + contract" where
  "myCallback E s sender requestId cleartexts proof =
     (if processed (decryptionContexts s requestId) then Inl ReplayAttempt
      else let ctx = decryptionContexts s requestId;
               results = batchResults s (batchId ctx)
        in if \<not> isInitialized E (totalValueSumEncrypted results) then Inl NotInitialized
           else if hashState E results \<noteq> stateHash ctx then Inl StateMismatch
           else if \<not> checkSignatures E requestId cleartexts proof then Inl InvalidProof
           else if length cleartexts < 128 then Inl DecodeFailure
           else Inr (s\<lparr>decryptionContexts := (decryptionContexts s)(requestId :=
                         ctx\<lparr>processed := True\<rparr>),
                       events := events s @
                         [DecryptionCompleted requestId (batchId ctx)
                            (decode_uint256 (slice cleartexts 0 32))
                            (decode_uint256 (slice cleartexts 32 64))
                            (decode_uint256 (slice cleartexts 64 96))
                            (decode_uint256 (slice cleartexts 96 128))]\<rparr>))"

subsection \<open>Transactions\<close>

text \<open>
  The external interface of the contract: one constructor per external function, with
  the function's arguments. A transaction is a call with its \<^verbatim>\<open>msg.sender\<close> and its
  \<^verbatim>\<open>block.timestamp\<close>. A transaction that reverts leaves the storage and the log as
  they were; \<open>run\<close> executes transactions one after the other.
\<close>

datatype call =
    TransferOwnership address
  | AddProvider address
  | RemoveProvider address
  | SetPaused bool
  | SetCooldownSeconds uint256
  | OpenNewBatch
  | CloseCurrentBatch
  | SubmitPortfolioData euint32 euint32 euint32 euint32 euint32 euint32
  | RequestBatchDecryption uint256 uint256
  | MyCallback uint256 bytes bytes

type_synonym tx = "address \<times> uint256 \<times> call"

fun dispatch :: "fhe \<Rightarrow> contract \<Rightarrow> address \<Rightarrow> uint256 \<Rightarrow> call \<Rightarrow> error + contract" where
  "dispatch E s sender now (TransferOwnership a) = transferOwnership s sender a"
| "dispatch E s sender now (AddProvider a) = addProvider s sender a"
| "dispatch E s sender now (RemoveProvider a) = removeProvider s sender a"
| "dispatch E s sender now (SetPaused p) = setPaused s sender p"
| "dispatch E s sender now (SetCooldownSeconds n) = setCooldownSeconds s sender n"
| "dispatch E s sender now OpenNewBatch = openNewBatch s sender"
| "dispatch E s sender now CloseCurrentBatch = closeCurrentBatch s sender"
| "dispatch E s sender now (SubmitPortfolioData tv rp ta1 ta2 ca1 ca2) =
     submitPortfolioData E s sender now tv rp ta1 ta2 ca1 ca2"
| "dispatch E s sender now (RequestBatchDecryption bid requestId) =
     requestBatchDecryption E s sender now bid requestId"
| "dispatch E s sender now (MyCallback requestId cleartexts proof) =
     myCallback E s sender requestId cleartexts proof"

fun exec :: "fhe \<Rightarrow> contract \<Rightarrow> tx \<Rightarrow> contract" where
  "exec E s (sender, now, c) =
     (case dispatch E s sender now c of Inl e \<Rightarrow> s | Inr s' \<Rightarrow> s')"

definition run :: "fhe \<Rightarrow> contract \<Rightarrow> tx list \<Rightarrow> contract" where
  "run E s txs = foldl (exec E) s txs"

text \<open>
  A sequence of submissions that are all accepted: each is a sender, a timestamp and
  the six ciphertexts (as a \<open>UserPortfolioState\<close>). The result is the state after the
  last one, or the error of the first one that reverts.
\<close>

type_synonym submission = "address \<times> uint256 \<times> UserPortfolioState"

definition submitFields ::
  "fhe \<Rightarrow> contract \<Rightarrow> address \<Rightarrow> uint256 \<Rightarrow> UserPortfolioState \<Rightarrow> error + contract" where
  "submitFields E s sender now u =
     submitPortfolioData E s sender now
       (totalValueEncrypted u) (riskPreferenceEncrypted u)
       (targetAllocation1Encrypted u) (targetAllocation2Encrypted u)
       (currentAllocation1Encrypted u) (currentAllocation2Encrypted u)"

fun submitAll :: "fhe \<Rightarrow> contract \<Rightarrow> submission list \<Rightarrow> error + contract" where
  "submitAll E s [] = Inr s"
| "submitAll E s ((sender, now, u) # xs) =
     (case submitFields E s sender now u of Inl e \<Rightarrow> Inl e | Inr s' \<Rightarrow> submitAll E s' xs)"

text \<open>The accumulators after one submission, without and with the seeding.\<close>

definition accumulateFields ::
  "fhe \<Rightarrow> UserPortfolioState \<Rightarrow> BatchAggregatedResults \<Rightarrow> BatchAggregatedResults" where
  "accumulateFields E u r =
     accumulate E r (totalValueEncrypted u) (riskPreferenceEncrypted u)
       (targetAllocation1Encrypted u) (targetAllocation2Encrypted u)
       (currentAllocation1Encrypted u) (currentAllocation2Encrypted u)"

definition aggregateFields ::
  "fhe \<Rightarrow> UserPortfolioState \<Rightarrow> BatchAggregatedResults \<Rightarrow> BatchAggregatedResults" where
  "aggregateFields E u r = accumulateFields E u (initResults E r)"

text \<open>
  The events a call emitted: what a successful call appended to the log.
\<close>

definition emitted :: "contract \<Rightarrow> error + contract \<Rightarrow> event list" where
  "emitted s r = (case r of Inl e \<Rightarrow> [] | Inr s' \<Rightarrow> drop (length (events s)) (events s'))"

text \<open>
  \<open>issues rid t\<close>: the transaction \<open>t\<close> is a decryption request to which the oracle gives
  the request id \<open>rid\<close>. \<open>completes rid e\<close>: the event \<open>e\<close> publishes the result of the
  request \<open>rid\<close>.
\<close>

fun issues :: "uint256 \<Rightarrow> tx \<Rightarrow> bool" where
  "issues rid (sender, now, RequestBatchDecryption bid requestId) = (requestId = rid)"
| "issues rid (sender, now, c) = False"

fun completes :: "uint256 \<Rightarrow> event \<Rightarrow> bool" where
  "completes rid (DecryptionCompleted requestId bid v1 v2 v3 v4) = (requestId = rid)"
| "completes rid e = False"

subsection \<open>A reference engine and a run of the protocol\<close>

text \<open>
  An engine to evaluate the contract on: the handle of the 32-bit value \<open>v\<close> is
  \<open>2^32 + v\<close>, so that no handle of a value is the null handle; addition and
  subtraction are those of \<^verbatim>\<open>uint32\<close>; a proof is accepted when it is the low byte of
  the request id; the hash is a polynomial in the handles and the contract address.
\<close>

definition enc :: "32 word \<Rightarrow> euint32" where
  "enc v = word_of_nat (2 ^ 32 + unat v)"

definition dec :: "euint32 \<Rightarrow> 32 word" where
  "dec h = word_of_nat (unat h)"

definition refEngine :: fhe where
  "refEngine =
     \<lparr>asEuint32 = enc,
      fhe_add = (\<lambda>a b. enc (dec a + dec b)),
      fhe_sub = (\<lambda>a b. enc (dec a - dec b)),
      isInitialized = (\<lambda>h. h \<noteq> 0),
      toBytes32 = (\<lambda>h. h),
      checkSignatures = (\<lambda>requestId cleartexts proof. proof = [ucast requestId]),
      keccak256_encode = (\<lambda>cts a. foldl (\<lambda>acc c. acc * 31 + c) (ucast a) cts),
      this_address = 0xC0FFEE\<rparr>"

text \<open>
  The end-to-end scenario: address 1 deploys the contract and enrols the provider 2,
  who submits (100, 3, 50, 50, 40, 60) at time 1000; the owner closes batch 1 and
  requests its decryption, and the oracle issues the request id 7 and later calls
  back. The states after each step are written out.
\<close>

definition scenario :: "tx list" where
  "scenario =
     [(1, 100, AddProvider 2),
      (2, 1000, SubmitPortfolioData (enc 100) (enc 3) (enc 50) (enc 50) (enc 40) (enc 60)),
      (1, 1100, CloseCurrentBatch),
      (1, 1200, RequestBatchDecryption 1 7)]"

definition scenarioResults :: BatchAggregatedResults where
  "scenarioResults =
     \<lparr>totalValueSumEncrypted = enc 100, riskPreferenceSumEncrypted = enc 3,
      rebalanceAmount1Encrypted = enc 10, rebalanceAmount2Encrypted = enc (- 10)\<rparr>"

definition openState :: contract where
  "openState =
     (constructor 1)\<lparr>providers := (providers (constructor 1))(2 := True),
       events := events (constructor 1) @ [ProviderAdded 2]\<rparr>"

definition submittedState :: contract where
  "submittedState =
     openState\<lparr>lastSubmissionTime := (lastSubmissionTime openState)(2 := 1000),
       userStates := (userStates openState)(2 :=
         \<lparr>totalValueEncrypted = enc 100, riskPreferenceEncrypted = enc 3,
          targetAllocation1Encrypted = enc 50, targetAllocation2Encrypted = enc 50,
          currentAllocation1Encrypted = enc 40, currentAllocation2Encrypted = enc 60\<rparr>),
       batchResults := (batchResults openState)(1 := scenarioResults),
       events := events openState @ [PortfolioDataSubmitted 2 1]\<rparr>"

definition closedState :: contract where
  "closedState =
     submittedState\<lparr>batchClosed := (batchClosed submittedState)(1 := True),
       events := events submittedState @ [BatchClosed 1]\<rparr>"

definition pendingState :: contract where
  "pendingState =
     closedState\<lparr>lastDecryptionRequestTime := (lastDecryptionRequestTime closedState)(1 := 1200),
       decryptionContexts := (decryptionContexts closedState)(7 :=
         \<lparr>batchId = 1, stateHash = hashState refEngine scenarioResults, processed = False\<rparr>),
       events := events closedState @ [DecryptionRequested 7 1]\<rparr>"

definition scenarioCleartexts :: bytes where
  "scenarioCleartexts =
     replicate 31 0 @ [100] @ replicate 31 0 @ [3] @ replicate 31 0 @ [10]
       @ replicate 28 0 @ [255, 255, 255, 246]"

definition completedState :: contract where
  "completedState =
     pendingState\<lparr>decryptionContexts := (decryptionContexts pendingState)(7 :=
         \<lparr>batchId = 1, stateHash = hashState refEngine scenarioResults, processed = True\<rparr>),
       events := events pendingState @ [DecryptionCompleted 7 1 100 3 10 4294967286]\<rparr>"

text \<open>
  The pending state with the value sum of batch 1 replaced behind the contract's back:
  no transaction leads there, it is the state a test harness would force.
\<close>

definition tamperedState :: contract where
  "tamperedState =
     pendingState\<lparr>batchResults := (batchResults pendingState)(1 :=
       scenarioResults\<lparr>totalValueSumEncrypted := enc 999\<rparr>)\<rparr>"

text \<open>
  The owner sets the cooldown to the largest \<^verbatim>\<open>uint256\<close> after the first submission.
\<close>

definition maxCooldown :: uint256 where
  "maxCooldown = 115792089237316195423570985008687907853269984665640564039457584007913129639935"

definition overflowState :: contract where
  "overflowState =
     submittedState\<lparr>cooldownSeconds := maxCooldown,
       events := events submittedState @ [CooldownSecondsSet 60 maxCooldown]\<rparr>"

text \<open>
  Three providers, and their three submissions in two orders.
\<close>

definition crowdState :: contract where
  "crowdState =
     openState\<lparr>providers := (providers openState)(3 := True, 4 := True),
       events := events openState @ [ProviderAdded 3, ProviderAdded 4]\<rparr>"

definition fieldsA :: UserPortfolioState where
  "fieldsA = \<lparr>totalValueEncrypted = enc 100, riskPreferenceEncrypted = enc 3,
     targetAllocation1Encrypted = enc 50, targetAllocation2Encrypted = enc 50,
     currentAllocation1Encrypted = enc 40, currentAllocation2Encrypted = enc 60\<rparr>"

definition fieldsB :: UserPortfolioState where
  "fieldsB = \<lparr>totalValueEncrypted = enc 200, riskPreferenceEncrypted = enc 5,
     targetAllocation1Encrypted = enc 30, targetAllocation2Encrypted = enc 70,
     currentAllocation1Encrypted = enc 35, currentAllocation2Encrypted = enc 65\<rparr>"

definition fieldsC :: UserPortfolioState where
  "fieldsC = \<lparr>totalValueEncrypted = enc 50, riskPreferenceEncrypted = enc 1,
     targetAllocation1Encrypted = enc 10, targetAllocation2Encrypted = enc 90,
     currentAllocation1Encrypted = enc 20, currentAllocation2Encrypted = enc 80\<rparr>"

definition orderABC :: "submission list" where
  "orderABC = [(2, 1000, fieldsA), (3, 1001, fieldsB), (4, 1002, fieldsC)]"

definition orderCAB :: "submission list" where
  "orderCAB = [(4, 1000, fieldsC), (2, 1001, fieldsA), (3, 1002, fieldsB)]"

section \<open>Auxiliary facts\<close>

subsection \<open>Runs\<close>

lemma run_Nil: "run E s [] = s"
  by (simp add: run_def)

lemma run_Cons: "run E s (t # ts) = run E (exec E s t) ts"
  by (simp add: run_def)

subsection \<open>The reference engine\<close>

lemma unat_enc: "unat (enc v) = 2 ^ 32 + unat v"
proof -
  have "unat v < 2 ^ 32" using unsigned_less [of v] by simp
  then have "2 ^ 32 + unat v < (2::nat) ^ LENGTH(256)" by simp
  then show ?thesis
    unfolding enc_def by (simp only: unat_of_nat mod_less)
qed

lemma dec_enc: "dec (enc v) = v"
proof -
  have "dec (enc v) = word_of_nat (2 ^ 32) + word_of_nat (unat v)"
    unfolding dec_def by (simp add: unat_enc)
  also have "\<dots> = v" by simp
  finally show ?thesis .
qed

lemma enc_nonzero: "enc v \<noteq> 0"
proof
  assume "enc v = 0"
  then have "unat (enc v) = 0" by simp
  then show False by (simp add: unat_enc)
qed

subsection \<open>The scenario, step by step\<close>

lemma scenario_addProvider: "addProvider (constructor 1) 1 2 = Inr openState"
  by (simp add: addProvider_def openState_def constructor_def)

lemma scenario_submit:
  "submitPortfolioData refEngine openState 2 1000
     (enc 100) (enc 3) (enc 50) (enc 50) (enc 40) (enc 60) = Inr submittedState"
  by (simp add: submitPortfolioData_def submittedState_def openState_def constructor_def
      checked_add_def aggregate_def accumulate_def initResults_def zeroResults_def refEngine_def
      scenarioResults_def dec_enc Let_def)

lemma scenario_close: "closeCurrentBatch submittedState 1 = Inr closedState"
  by (simp add: closeCurrentBatch_def closedState_def submittedState_def openState_def
      constructor_def)

lemma scenario_request:
  "requestBatchDecryption refEngine closedState 1 1200 1 7 = Inr pendingState"
  by (simp add: requestBatchDecryption_def pendingState_def closedState_def
      submittedState_def openState_def constructor_def checked_add_def refEngine_def
      scenarioResults_def enc_nonzero)

lemma scenario_reaches_pending: "run refEngine (constructor 1) scenario = pendingState"
  by (simp add: scenario_def run_Cons run_Nil scenario_addProvider scenario_submit
      scenario_close scenario_request)

lemma decode_scenario:
  "decode_uint256 (slice scenarioCleartexts 0 32) = 100"
  "decode_uint256 (slice scenarioCleartexts 32 64) = 3"
  "decode_uint256 (slice scenarioCleartexts 64 96) = 10"
  "decode_uint256 (slice scenarioCleartexts 96 128) = 4294967286"
  by code_simp+

lemma length_scenarioCleartexts: "length scenarioCleartexts = 128"
  by (simp add: scenarioCleartexts_def)

lemma scenario_pending_fields:
  "decryptionContexts pendingState 7 =
     \<lparr>batchId = 1, stateHash = hashState refEngine scenarioResults, processed = False\<rparr>"
  "batchResults pendingState 1 = scenarioResults"
  "isInitialized refEngine (totalValueSumEncrypted scenarioResults)"
  by (simp_all add: pendingState_def closedState_def submittedState_def scenarioResults_def
      refEngine_def enc_nonzero)

lemma scenario_callback:
  "myCallback refEngine pendingState sender 7 scenarioCleartexts [7] = Inr completedState"
  by (simp add: myCallback_def Let_def scenario_pending_fields completedState_def
      decode_scenario length_scenarioCleartexts)
    (simp add: refEngine_def)

subsection \<open>What a transaction preserves\<close>

lemma exec_keeps_processed:
  assumes "processed (decryptionContexts s rid)" and "\<not> issues rid t"
  shows "decryptionContexts (exec E s t) rid = decryptionContexts s rid
       \<and> filter (completes rid) (events (exec E s t)) = filter (completes rid) (events s)"
proof -
  obtain sender now c where t: "t = (sender, now, c)" by (cases t)
  show ?thesis
    using assms unfolding t
    by (cases c)
      (auto simp: transferOwnership_def addProvider_def removeProvider_def setPaused_def
        setCooldownSeconds_def openNewBatch_def closeCurrentBatch_def submitPortfolioData_def
        requestBatchDecryption_def myCallback_def Let_def
        split: sum.splits if_splits)
qed

lemma run_keeps_processed:
  assumes "processed (decryptionContexts s rid)" and "\<forall>t\<in>set ts. \<not> issues rid t"
  shows "decryptionContexts (run E s ts) rid = decryptionContexts s rid
       \<and> filter (completes rid) (events (run E s ts)) = filter (completes rid) (events s)"
  using assms
proof (induction ts arbitrary: s)
  case Nil
  then show ?case by (simp add: run_Nil)
next
  case (Cons t ts)
  from Cons.prems have step:
    "decryptionContexts (exec E s t) rid = decryptionContexts s rid"
    "filter (completes rid) (events (exec E s t)) = filter (completes rid) (events s)"
    using exec_keeps_processed [of s rid t E] by simp_all
  with Cons.prems have "processed (decryptionContexts (exec E s t) rid)" by simp
  with Cons.IH [of "exec E s t"] Cons.prems step show ?case
    by (simp add: run_Cons)
qed

lemma exec_keeps_closed:
  assumes "batchClosed s R"
  shows "batchClosed (exec E s t) R \<and> batchResults (exec E s t) R = batchResults s R"
proof -
  obtain sender now c where t: "t = (sender, now, c)" by (cases t)
  show ?thesis
    using assms unfolding t
    by (cases c)
      (auto simp: transferOwnership_def addProvider_def removeProvider_def setPaused_def
        setCooldownSeconds_def openNewBatch_def closeCurrentBatch_def submitPortfolioData_def
        requestBatchDecryption_def myCallback_def Let_def
        split: sum.splits if_splits)
qed

lemma run_keeps_closed:
  assumes "batchClosed s R"
  shows "batchClosed (run E s ts) R \<and> batchResults (run E s ts) R = batchResults s R"
  using assms
proof (induction ts arbitrary: s)
  case Nil
  then show ?case by (simp add: run_Nil)
next
  case (Cons t ts)
  from exec_keeps_closed [OF Cons.prems, of E t] Cons.IH [of "exec E s t"]
  show ?case by (simp add: run_Cons)
qed

subsection \<open>Checked addition\<close>

lemma checked_add_fits:
  assumes "unat a + unat b < 2 ^ 256"
  shows "checked_add a b = Inr (a + b)" and "unat (a + b) = unat a + unat b"
  using assms by (simp_all add: checked_add_def unat_word_ariths)

lemma checked_add_overflow:
  assumes "2 ^ 256 \<le> unat a + unat b"
  shows "checked_add a b = Inl Panic"
  using assms by (simp add: checked_add_def)

lemma elapsed_fits:
  fixes now :: uint256
  assumes "unat a + unat b \<le> unat now"
  shows "unat a + unat b < 2 ^ 256"
proof -
  have "unat now < 2 ^ 256" using unsigned_less [of now] by simp
  with assms show ?thesis by linarith
qed

subsection \<open>Folding submissions into a batch\<close>

lemma submitFields_results:
  assumes "submitFields E s sender now u = Inr s'"
  shows "currentBatchId s' = currentBatchId s
       \<and> batchResults s' = (batchResults s)(currentBatchId s :=
            aggregateFields E u (batchResults s (currentBatchId s)))"
  using assms
  by (auto simp: submitFields_def submitPortfolioData_def aggregateFields_def
      accumulateFields_def aggregate_def split: if_splits sum.splits)

lemma submitAll_results:
  assumes "submitAll E s xs = Inr s'"
  shows "currentBatchId s' = currentBatchId s
       \<and> batchResults s' = (batchResults s)(currentBatchId s :=
            fold (aggregateFields E) (map (snd \<circ> snd) xs) (batchResults s (currentBatchId s)))"
  using assms
proof (induction xs arbitrary: s)
  case Nil
  then show ?case by simp
next
  case (Cons x xs)
  obtain sender now u where x: "x = (sender, now, u)" by (cases x)
  from Cons.prems obtain s'' where
    first: "submitFields E s sender now u = Inr s''" and
    rest: "submitAll E s'' xs = Inr s'"
    unfolding x by (auto split: sum.splits)
  from submitFields_results [OF first] Cons.IH [OF rest] show ?case
    unfolding x by (auto simp: fun_eq_iff)
qed

lemma accumulateFields_initialized:
  assumes "\<forall>a b. isInitialized E (fhe_add E a b)"
  shows "isInitialized E (totalValueSumEncrypted (accumulateFields E u r))"
  using assms by (simp add: accumulateFields_def accumulate_def Let_def)

lemma aggregateFields_seeded:
  assumes "isInitialized E (totalValueSumEncrypted r)"
  shows "aggregateFields E u r = accumulateFields E u r"
  using assms by (simp add: aggregateFields_def initResults_def)

lemma fold_aggregate_seeded:
  assumes "\<forall>a b. isInitialized E (fhe_add E a b)"
    and "isInitialized E (totalValueSumEncrypted r)"
  shows "fold (aggregateFields E) us r = fold (accumulateFields E) us r"
  using assms(2)
proof (induction us arbitrary: r)
  case Nil
  then show ?case by simp
next
  case (Cons u us)
  from Cons.prems have "aggregateFields E u r = accumulateFields E u r"
    by (rule aggregateFields_seeded)
  moreover have "isInitialized E (totalValueSumEncrypted (accumulateFields E u r))"
    using assms(1) by (rule accumulateFields_initialized)
  ultimately show ?case using Cons.IH by simp
qed

lemma fold_aggregate:
  assumes "\<forall>a b. isInitialized E (fhe_add E a b)" and "us \<noteq> []"
  shows "fold (aggregateFields E) us r = fold (accumulateFields E) us (initResults E r)"
proof (cases us)
  case Nil
  with assms(2) show ?thesis by simp
next
  case (Cons u us')
  have "isInitialized E (totalValueSumEncrypted (accumulateFields E u (initResults E r)))"
    using assms(1) by (rule accumulateFields_initialized)
  then have "fold (aggregateFields E) us' (accumulateFields E u (initResults E r))
      = fold (accumulateFields E) us' (accumulateFields E u (initResults E r))"
    by (rule fold_aggregate_seeded [OF assms(1)])
  then show ?thesis unfolding Cons by (simp add: aggregateFields_def)
qed

lemma accumulateFields_commute:
  assumes comm: "\<forall>a b. fhe_add E a b = fhe_add E b a"
    and assoc: "\<forall>a b c. fhe_add E (fhe_add E a b) c = fhe_add E a (fhe_add E b c)"
  shows "accumulateFields E u \<circ> accumulateFields E v = accumulateFields E v \<circ> accumulateFields E u"
proof -
  have sw: "fhe_add E (fhe_add E a x) y = fhe_add E (fhe_add E a y) x" for a x y
  proof -
    have "fhe_add E (fhe_add E a x) y = fhe_add E a (fhe_add E x y)" using assoc by simp
    also have "\<dots> = fhe_add E a (fhe_add E y x)" using comm by metis
    also have "\<dots> = fhe_add E (fhe_add E a y) x" using assoc by simp
    finally show ?thesis .
  qed
  show ?thesis
    by (rule ext) (simp add: accumulateFields_def accumulate_def Let_def sw [of _ "totalValueEncrypted v"]
        sw [of _ "riskPreferenceEncrypted v"] sw [of _ "fhe_sub E (targetAllocation1Encrypted v) (currentAllocation1Encrypted v)"]
        sw [of _ "fhe_sub E (targetAllocation2Encrypted v) (currentAllocation2Encrypted v)"])
qed

subsection \<open>The reference engine's addition\<close>

lemma refEngine_add_comm: "\<forall>a b. fhe_add refEngine a b = fhe_add refEngine b a"
  by (simp add: refEngine_def add.commute)

lemma refEngine_add_assoc:
  "\<forall>a b c. fhe_add refEngine (fhe_add refEngine a b) c
     = fhe_add refEngine a (fhe_add refEngine b c)"
  by (simp add: refEngine_def dec_enc add.assoc)

lemma refEngine_add_initialized: "\<forall>a b. isInitialized refEngine (fhe_add refEngine a b)"
  by (simp add: refEngine_def enc_nonzero)

subsection \<open>Three providers in two orders\<close>

lemma submitFields_accepted:
  assumes "providers s a" and "\<not> paused s"
    and "unat (lastSubmissionTime s a) + unat (cooldownSeconds s) \<le> unat now"
    and "\<not> batchClosed s (currentBatchId s)"
  shows "submitFields E s a now u =
     Inr (s\<lparr>lastSubmissionTime := (lastSubmissionTime s)(a := now),
            userStates := (userStates s)(a :=
              \<lparr>totalValueEncrypted = totalValueEncrypted u,
               riskPreferenceEncrypted = riskPreferenceEncrypted u,
               targetAllocation1Encrypted = targetAllocation1Encrypted u,
               targetAllocation2Encrypted = targetAllocation2Encrypted u,
               currentAllocation1Encrypted = currentAllocation1Encrypted u,
               currentAllocation2Encrypted = currentAllocation2Encrypted u\<rparr>),
            batchResults := (batchResults s)(currentBatchId s :=
              aggregateFields E u (batchResults s (currentBatchId s))),
            events := events s @ [PortfolioDataSubmitted a (currentBatchId s)]\<rparr>)"
proof -
  note fits = checked_add_fits [OF elapsed_fits [OF assms(3)]]
  from assms(3) fits(2) have "\<not> now < lastSubmissionTime s a + cooldownSeconds s"
    by (simp add: word_less_nat_alt)
  with assms fits(1) show ?thesis
    by (simp add: submitFields_def submitPortfolioData_def aggregateFields_def
        accumulateFields_def aggregate_def)
qed

lemma crowd_fields: "providers crowdState 2" "providers crowdState 3" "providers crowdState 4"
  "\<not> paused crowdState" "cooldownSeconds crowdState = 60" "lastSubmissionTime crowdState = (\<lambda>_. 0)"
  "currentBatchId crowdState = 1" "batchClosed crowdState = (\<lambda>_. False)"
  "batchResults crowdState = (\<lambda>_. zeroResults)"
  by (simp_all add: crowdState_def openState_def constructor_def)

lemma crowd_ABC_ok: "\<exists>s1. submitAll refEngine crowdState orderABC = Inr s1"
  by (simp add: orderABC_def submitFields_accepted crowd_fields)

lemma crowd_CAB_ok: "\<exists>s2. submitAll refEngine crowdState orderCAB = Inr s2"
  by (simp add: orderCAB_def submitFields_accepted crowd_fields)

lemma aggregateFields_refEngine:
  "aggregateFields refEngine u r =
     (let r0 = (if totalValueSumEncrypted r = 0
                then \<lparr>totalValueSumEncrypted = enc 0, riskPreferenceSumEncrypted = enc 0,
                      rebalanceAmount1Encrypted = enc 0, rebalanceAmount2Encrypted = enc 0\<rparr>
                else r)
      in \<lparr>totalValueSumEncrypted =
            enc (dec (totalValueSumEncrypted r0) + dec (totalValueEncrypted u)),
          riskPreferenceSumEncrypted =
            enc (dec (riskPreferenceSumEncrypted r0) + dec (riskPreferenceEncrypted u)),
          rebalanceAmount1Encrypted =
            enc (dec (rebalanceAmount1Encrypted r0)
              + (dec (targetAllocation1Encrypted u) - dec (currentAllocation1Encrypted u))),
          rebalanceAmount2Encrypted =
            enc (dec (rebalanceAmount2Encrypted r0)
              + (dec (targetAllocation2Encrypted u) - dec (currentAllocation2Encrypted u)))\<rparr>)"
  by (simp add: aggregateFields_def accumulateFields_def accumulate_def initResults_def
      refEngine_def dec_enc Let_def)

lemma crowd_sum:
  "fold (aggregateFields refEngine) [fieldsA, fieldsB, fieldsC] zeroResults =
     \<lparr>totalValueSumEncrypted = enc 350, riskPreferenceSumEncrypted = enc 9,
      rebalanceAmount1Encrypted = enc (- 5), rebalanceAmount2Encrypted = enc 5\<rparr>"
  by (simp add: aggregateFields_refEngine fieldsA_def fieldsB_def fieldsC_def zeroResults_def
      dec_enc enc_nonzero Let_def)


lemma crowd_perm: "mset (map (snd \<circ> snd) orderABC) = mset (map (snd \<circ> snd) orderCAB)"
  by (simp add: orderABC_def orderCAB_def add_mset_commute)

section \<open>The claims\<close>

subsection \<open>C1: a request id is consumed once\<close>

text \<open>
  Claim C1. Once \<^verbatim>\<open>myCallback\<close> has succeeded for a request id, every later
  \<^verbatim>\<open>myCallback\<close> with that id, from any caller and with any cleartexts and proof, reverts
  with \<open>ReplayAttempt\<close>, whatever transactions \<open>ts\<close> ran in between; the stored context
  of the id and the completion events published for it are those left by the first
  success. The flag \<open>processed\<close> was false before the success and is true after it.
  The oracle is taken not to issue the consumed id to a new request (no transaction of
  \<open>ts\<close> is a request that receives it): \<^verbatim>\<open>requestBatchDecryption\<close> writes a fresh context
  under whatever id \<^verbatim>\<open>FHE.requestDecryption\<close> returns.
\<close>

theorem callback_consumed_once:
  assumes "myCallback E s sender rid cleartexts proof = Inr s1"
    and "\<forall>t\<in>set ts. \<not> issues rid t"
  shows "\<not> processed (decryptionContexts s rid)
       \<and> processed (decryptionContexts s1 rid)
       \<and> myCallback E (run E s1 ts) sender' rid cleartexts' proof' = Inl ReplayAttempt
       \<and> decryptionContexts (run E s1 ts) rid = decryptionContexts s1 rid
       \<and> filter (completes rid) (events (run E s1 ts)) = filter (completes rid) (events s1)"
proof -
  from assms(1) have p: "\<not> processed (decryptionContexts s rid)"
    "processed (decryptionContexts s1 rid)"
    by (auto simp: myCallback_def Let_def split: if_splits)
  from run_keeps_processed [OF p(2) assms(2), of E]
  have k: "decryptionContexts (run E s1 ts) rid = decryptionContexts s1 rid"
    "filter (completes rid) (events (run E s1 ts)) = filter (completes rid) (events s1)"
    by simp_all
  from k(1) p(2)
  have "myCallback E (run E s1 ts) sender' rid cleartexts' proof' = Inl ReplayAttempt"
    by (simp add: myCallback_def)
  with p k show ?thesis by simp
qed

text \<open>
  In the scenario: after the oracle's callback for request 7, the owner opens a new
  batch and a second callback with the same arguments is sent; it reverts, and so does
  every callback for 7 after that.
\<close>

theorem callback_consumed_once_witness:
  "myCallback refEngine pendingState 9 7 scenarioCleartexts [7] = Inr completedState
   \<and> myCallback refEngine
       (run refEngine completedState
          [(1, 5000, OpenNewBatch), (9, 5001, MyCallback 7 scenarioCleartexts [7])])
       9 7 scenarioCleartexts [7] = Inl ReplayAttempt"
  using callback_consumed_once [OF scenario_callback [of 9],
      of "[(1, 5000, OpenNewBatch), (9, 5001, MyCallback 7 scenarioCleartexts [7])]"
         9 scenarioCleartexts "[7]"]
    scenario_callback [of 9]
  by simp

subsection \<open>C3: what a submission adds\<close>

text \<open>
  Claim C3. An accepted submission into the current batch \<open>R\<close> first seeds the four
  accumulators of \<open>R\<close> with \<^verbatim>\<open>FHE.asEuint32(0)\<close> when they do not exist yet (the code's test
  is that the value sum is not initialized), and then adds, with the engine's
  addition, the total value to the value sum, the risk preference to the risk sum, and
  the engine's difference of target and current allocation to each rebalance amount.
  No other batch changes, and the current batch stays the same.
\<close>

theorem submit_aggregates:
  assumes "submitPortfolioData E s sender now tv rp ta1 ta2 ca1 ca2 = Inr s'"
  shows "batchResults s' (currentBatchId s) =
           (let r = batchResults s (currentBatchId s);
                z = asEuint32 E 0;
                fresh = \<not> isInitialized E (totalValueSumEncrypted r)
            in \<lparr>totalValueSumEncrypted =
                  fhe_add E (if fresh then z else totalValueSumEncrypted r) tv,
                riskPreferenceSumEncrypted =
                  fhe_add E (if fresh then z else riskPreferenceSumEncrypted r) rp,
                rebalanceAmount1Encrypted =
                  fhe_add E (if fresh then z else rebalanceAmount1Encrypted r)
                    (fhe_sub E ta1 ca1),
                rebalanceAmount2Encrypted =
                  fhe_add E (if fresh then z else rebalanceAmount2Encrypted r)
                    (fhe_sub E ta2 ca2)\<rparr>)
       \<and> (\<forall>b. b \<noteq> currentBatchId s \<longrightarrow> batchResults s' b = batchResults s b)
       \<and> currentBatchId s' = currentBatchId s"
  using assms
  by (auto simp: submitPortfolioData_def aggregate_def accumulate_def initResults_def Let_def
      split: if_splits sum.splits)

text \<open>
  The first submission of the scenario: the sums of batch 1 become the handles of
  100, 3, 50 - 40 and 50 - 60.
\<close>

theorem submit_aggregates_witness:
  "submitPortfolioData refEngine openState 2 1000
     (enc 100) (enc 3) (enc 50) (enc 50) (enc 40) (enc 60) = Inr submittedState
   \<and> batchResults submittedState 1 =
       \<lparr>totalValueSumEncrypted = enc (0 + 100), riskPreferenceSumEncrypted = enc (0 + 3),
        rebalanceAmount1Encrypted = enc (0 + (50 - 40)),
        rebalanceAmount2Encrypted = enc (0 + (50 - 60))\<rparr>"
  using submit_aggregates [OF scenario_submit] scenario_submit
  by (simp add: openState_def constructor_def zeroResults_def refEngine_def dec_enc)

subsection \<open>C4: a closed batch stays closed and frozen\<close>

text \<open>
  Claim C4. Once \<^verbatim>\<open>closeCurrentBatch\<close> has succeeded for the batch \<open>R\<close>, then after any
  transactions \<open>ts\<close> the batch \<open>R\<close> is still closed and its four accumulators are what
  they were at the close. In any state \<open>s2\<close> whose current batch is closed, a
  submission reverts and changes nothing; the error is \<open>BatchClosedOrInvalid\<close> when the
  caller passes the checks made before it (provider, not paused, cooldown elapsed).
\<close>

theorem closed_batch_frozen:
  assumes "closeCurrentBatch s sender = Inr s1"
  shows "batchClosed (run E s1 ts) (currentBatchId s)
       \<and> batchResults (run E s1 ts) (currentBatchId s) = batchResults s (currentBatchId s)
       \<and> (batchClosed s2 (currentBatchId s2) \<longrightarrow>
            (\<exists>e. submitPortfolioData E s2 a now tv rp ta1 ta2 ca1 ca2 = Inl e)
            \<and> exec E s2 (a, now, SubmitPortfolioData tv rp ta1 ta2 ca1 ca2) = s2
            \<and> (providers s2 a \<and> \<not> paused s2
                 \<and> unat (lastSubmissionTime s2 a) + unat (cooldownSeconds s2) \<le> unat now \<longrightarrow>
               submitPortfolioData E s2 a now tv rp ta1 ta2 ca1 ca2 = Inl BatchClosedOrInvalid))"
proof -
  from assms have c: "batchClosed s1 (currentBatchId s)"
    "batchResults s1 (currentBatchId s) = batchResults s (currentBatchId s)"
    by (auto simp: closeCurrentBatch_def split: if_splits)
  have frozen: "batchClosed (run E s1 ts) (currentBatchId s)
       \<and> batchResults (run E s1 ts) (currentBatchId s) = batchResults s (currentBatchId s)"
    using run_keeps_closed [OF c(1), of E ts] c(2) by simp
  have rej: "\<exists>e. submitPortfolioData E s2 a now tv rp ta1 ta2 ca1 ca2 = Inl e"
    if "batchClosed s2 (currentBatchId s2)"
    using that by (auto simp: submitPortfolioData_def split: sum.splits)
  have same: "exec E s2 (a, now, SubmitPortfolioData tv rp ta1 ta2 ca1 ca2) = s2"
    if "batchClosed s2 (currentBatchId s2)"
    using rej [OF that] by auto
  have err: "submitPortfolioData E s2 a now tv rp ta1 ta2 ca1 ca2 = Inl BatchClosedOrInvalid"
    if "batchClosed s2 (currentBatchId s2)" "providers s2 a" "\<not> paused s2"
      "unat (lastSubmissionTime s2 a) + unat (cooldownSeconds s2) \<le> unat now"
  proof -
    have b: "unat now < 2 ^ 256" using unsigned_less [of now] by simp
    with that(4)
    have fit: "unat (lastSubmissionTime s2 a) + unat (cooldownSeconds s2) < 2 ^ 256"
      by linarith
    then have "unat (lastSubmissionTime s2 a + cooldownSeconds s2)
        = unat (lastSubmissionTime s2 a) + unat (cooldownSeconds s2)"
      by (simp add: unat_word_ariths)
    with that(4) have "\<not> now < lastSubmissionTime s2 a + cooldownSeconds s2"
      by (simp add: word_less_nat_alt)
    with that fit show ?thesis
      by (simp add: submitPortfolioData_def checked_add_def)
  qed
  from frozen rej same err show ?thesis by blast
qed

text \<open>
  In the scenario: after the owner closed batch 1, provider 2 submits again at time
  2000 and the owner opens batch 2; batch 1 is still closed with the sums of the first
  submission, and the late submission was refused with \<open>BatchClosedOrInvalid\<close>.
\<close>

theorem closed_batch_frozen_witness:
  "closeCurrentBatch submittedState 1 = Inr closedState
   \<and> batchClosed (run refEngine closedState
        [(2, 2000, SubmitPortfolioData (enc 1) (enc 1) (enc 1) (enc 1) (enc 1) (enc 1)),
         (1, 3000, OpenNewBatch)]) 1
   \<and> batchResults (run refEngine closedState
        [(2, 2000, SubmitPortfolioData (enc 1) (enc 1) (enc 1) (enc 1) (enc 1) (enc 1)),
         (1, 3000, OpenNewBatch)]) 1 = scenarioResults
   \<and> submitPortfolioData refEngine closedState 2 2000
        (enc 1) (enc 1) (enc 1) (enc 1) (enc 1) (enc 1) = Inl BatchClosedOrInvalid"
  using closed_batch_frozen [OF scenario_close,
      of refEngine
         "[(2, 2000, SubmitPortfolioData (enc 1) (enc 1) (enc 1) (enc 1) (enc 1) (enc 1)),
           (1, 3000, OpenNewBatch)]"
         closedState 2 2000 "enc 1" "enc 1" "enc 1" "enc 1" "enc 1" "enc 1"]
    scenario_close
  by (simp add: closedState_def submittedState_def openState_def constructor_def)

subsection \<open>C7: who may call the callback\<close>

text \<open>
  Claim C7, amended. \<^verbatim>\<open>myCallback\<close> is \<^verbatim>\<open>public\<close> and never reads \<^verbatim>\<open>msg.sender\<close>: its outcome
  is the same for every caller. A call is accepted exactly when the request is not yet
  processed, the batch's value sum is initialized, the recomputed hash equals the
  stored one, \<^verbatim>\<open>FHE.checkSignatures\<close> accepts the request id, cleartexts and proof, and
  the cleartexts hold the 128 bytes that are decoded. What keeps a stranger out is the
  proof check, not the caller's identity.
\<close>

theorem myCallback_any_caller:
  "myCallback E s a requestId cleartexts proof = myCallback E s b requestId cleartexts proof
   \<and> ((\<exists>s'. myCallback E s a requestId cleartexts proof = Inr s') \<longleftrightarrow>
        \<not> processed (decryptionContexts s requestId)
        \<and> isInitialized E (totalValueSumEncrypted
              (batchResults s (batchId (decryptionContexts s requestId))))
        \<and> hashState E (batchResults s (batchId (decryptionContexts s requestId)))
            = stateHash (decryptionContexts s requestId)
        \<and> checkSignatures E requestId cleartexts proof
        \<and> 128 \<le> length cleartexts)"
  by (auto simp: myCallback_def Let_def)

theorem myCallback_any_caller_witness:
  "myCallback refEngine pendingState 9 7 scenarioCleartexts [7]
     = myCallback refEngine pendingState 10 7 scenarioCleartexts [7]"
  by (rule myCallback_any_caller [THEN conjunct1])

text \<open>
  The claim as stated fails: in the scenario the callers 9 and 10, neither of them the
  owner nor a provider, are both accepted with the same cleartexts and proof, and the
  call changes the state (the context is marked processed and the result is logged).
  Whichever address the oracle has, one of the two is not it.
\<close>

theorem myCallback_not_oracle_only_counterexample:
  "myCallback refEngine pendingState 9 7 scenarioCleartexts [7] = Inr completedState
   \<and> myCallback refEngine pendingState 10 7 scenarioCleartexts [7] = Inr completedState
   \<and> (9 :: address) \<noteq> 10
   \<and> processed (decryptionContexts completedState 7)
   \<and> \<not> processed (decryptionContexts pendingState 7)
   \<and> events completedState = events pendingState @ [DecryptionCompleted 7 1 100 3 10 4294967286]"
  by (simp add: scenario_callback scenario_pending_fields) (simp add: completedState_def)

subsection \<open>C8: the events of the administration functions\<close>

text \<open>
  Claim C8, amended. Called by the owner, each of \<^verbatim>\<open>transferOwnership\<close>,
  \<^verbatim>\<open>setCooldownSeconds\<close>, \<^verbatim>\<open>addProvider\<close>, \<^verbatim>\<open>removeProvider\<close> and \<^verbatim>\<open>setPaused\<close> succeeds, makes
  its one change and emits one event. \<open>OwnershipTransferred\<close> and \<open>CooldownSecondsSet\<close>
  carry the old and the new value. \<open>ProviderAdded\<close> and \<open>ProviderRemoved\<close> carry only
  the address concerned, and \<open>ContractPaused\<close> and \<open>ContractUnpaused\<close> only the caller:
  they tell the new value by their name and do not tell the old one.
\<close>

theorem admin_events:
  assumes "sender = owner s"
  shows "transferOwnership s sender a =
           Inr (s\<lparr>owner := a, events := events s @ [OwnershipTransferred (owner s) a]\<rparr>)
       \<and> setCooldownSeconds s sender n =
           Inr (s\<lparr>cooldownSeconds := n,
                  events := events s @ [CooldownSecondsSet (cooldownSeconds s) n]\<rparr>)
       \<and> addProvider s sender a =
           Inr (s\<lparr>providers := (providers s)(a := True),
                  events := events s @ [ProviderAdded a]\<rparr>)
       \<and> removeProvider s sender a =
           Inr (s\<lparr>providers := (providers s)(a := False),
                  events := events s @ [ProviderRemoved a]\<rparr>)
       \<and> setPaused s sender p =
           Inr (s\<lparr>paused := p,
                  events := events s @
                    [if p then ContractPaused sender else ContractUnpaused sender]\<rparr>)"
  using assms
  by (simp add: transferOwnership_def setCooldownSeconds_def addProvider_def removeProvider_def
      setPaused_def)

theorem admin_events_witness:
  "(1 :: address) = owner (constructor 1)
   \<and> emitted (constructor 1) (setCooldownSeconds (constructor 1) 1 120)
       = [CooldownSecondsSet 60 120]
   \<and> emitted (constructor 1) (transferOwnership (constructor 1) 1 5)
       = [OwnershipTransferred 1 5]
   \<and> emitted (constructor 1) (setPaused (constructor 1) 1 True) = [ContractPaused 1]"
  using admin_events [of 1 "constructor 1" 5 120 True]
  by (simp add: emitted_def constructor_def)

text \<open>
  The claim as stated fails for \<^verbatim>\<open>addProvider\<close>: the owner adds the address 2 once when
  2 is not a provider and once when it already is one, and the two calls emit the same
  event, so the event does not carry the value before the call.
\<close>

theorem admin_events_no_old_value_counterexample:
  "emitted (constructor 1) (addProvider (constructor 1) 1 2) = [ProviderAdded 2]
   \<and> emitted openState (addProvider openState 1 2) = [ProviderAdded 2]
   \<and> \<not> providers (constructor 1) 2
   \<and> providers openState 2
   \<and> owner (constructor 1) = 1 \<and> owner openState = 1"
  by (simp add: emitted_def addProvider_def openState_def constructor_def)

subsection \<open>C2: the callback is bound to the state of the request\<close>

text \<open>
  Claim C2. A successful \<^verbatim>\<open>requestBatchDecryption\<close> stores, under the request id, the
  batch and the hash of the batch's four accumulators (in the order value sum, risk
  sum, rebalance amount 1, rebalance amount 2) together with the contract's address.
  \<^verbatim>\<open>myCallback\<close> succeeds, and so publishes, only if the same hash recomputed from the
  batch's accumulators at the time of the callback equals the stored one. If the two
  differ the call reverts and leaves storage and log as they were; the revert is
  \<open>StateMismatch\<close> whenever the call gets as far as the comparison, that is when the
  request is not yet processed and the batch's value sum is initialized (the two
  checks that the code makes first).
\<close>

theorem callback_state_binding:
  "(requestBatchDecryption E s0 caller now0 bid rid = Inr s \<longrightarrow>
      batchId (decryptionContexts s rid) = bid
      \<and> \<not> processed (decryptionContexts s rid)
      \<and> stateHash (decryptionContexts s rid) =
          keccak256_encode E
            [toBytes32 E (totalValueSumEncrypted (batchResults s0 bid)),
             toBytes32 E (riskPreferenceSumEncrypted (batchResults s0 bid)),
             toBytes32 E (rebalanceAmount1Encrypted (batchResults s0 bid)),
             toBytes32 E (rebalanceAmount2Encrypted (batchResults s0 bid))]
            (this_address E))
   \<and> (myCallback E s sender rid cleartexts proof = Inr s' \<longrightarrow>
        keccak256_encode E
          [toBytes32 E (totalValueSumEncrypted (batchResults s (batchId (decryptionContexts s rid)))),
           toBytes32 E (riskPreferenceSumEncrypted (batchResults s (batchId (decryptionContexts s rid)))),
           toBytes32 E (rebalanceAmount1Encrypted (batchResults s (batchId (decryptionContexts s rid)))),
           toBytes32 E (rebalanceAmount2Encrypted (batchResults s (batchId (decryptionContexts s rid))))]
          (this_address E)
        = stateHash (decryptionContexts s rid))
   \<and> (hashState E (batchResults s (batchId (decryptionContexts s rid)))
         \<noteq> stateHash (decryptionContexts s rid) \<longrightarrow>
        (\<exists>e. myCallback E s sender rid cleartexts proof = Inl e)
        \<and> exec E s (sender, now, MyCallback rid cleartexts proof) = s
        \<and> (\<not> processed (decryptionContexts s rid)
             \<and> isInitialized E (totalValueSumEncrypted
                  (batchResults s (batchId (decryptionContexts s rid)))) \<longrightarrow>
            myCallback E s sender rid cleartexts proof = Inl StateMismatch))"
  by (auto simp: requestBatchDecryption_def myCallback_def hashState_def ciphertexts_def Let_def
      split: if_splits sum.splits)

text \<open>
  In the scenario the request stores the hash of the sums of batch 1 and the callback
  is accepted; with the value sum of batch 1 replaced, the same callback reverts with
  \<open>StateMismatch\<close> and nothing changes.
\<close>

theorem callback_state_binding_witness:
  "requestBatchDecryption refEngine closedState 1 1200 1 7 = Inr pendingState
   \<and> stateHash (decryptionContexts pendingState 7) = hashState refEngine scenarioResults
   \<and> myCallback refEngine pendingState 9 7 scenarioCleartexts [7] = Inr completedState
   \<and> myCallback refEngine tamperedState 9 7 scenarioCleartexts [7] = Inl StateMismatch
   \<and> exec refEngine tamperedState (9, 2000, MyCallback 7 scenarioCleartexts [7]) = tamperedState"
proof -
  have t: "decryptionContexts tamperedState 7 = decryptionContexts pendingState 7"
    "batchResults tamperedState 1 = scenarioResults\<lparr>totalValueSumEncrypted := enc 999\<rparr>"
    by (simp_all add: tamperedState_def)
  have h: "hashState refEngine (scenarioResults\<lparr>totalValueSumEncrypted := enc 999\<rparr>)
      \<noteq> hashState refEngine scenarioResults"
    by (simp add: hashState_def ciphertexts_def refEngine_def scenarioResults_def enc_def)
  have i: "isInitialized refEngine
      (totalValueSumEncrypted (scenarioResults\<lparr>totalValueSumEncrypted := enc 999\<rparr>))"
    by (simp add: refEngine_def enc_nonzero)
  from callback_state_binding [of refEngine closedState 1 1200 1 7 tamperedState 9
      scenarioCleartexts "[7]" completedState 2000] t h i
  have bad: "myCallback refEngine tamperedState 9 7 scenarioCleartexts [7] = Inl StateMismatch"
    "exec refEngine tamperedState (9, 2000, MyCallback 7 scenarioCleartexts [7]) = tamperedState"
    by (simp_all add: scenario_pending_fields)
  from callback_state_binding [of refEngine closedState 1 1200 1 7 pendingState 9
      scenarioCleartexts "[7]" completedState 2000] scenario_request
  have "stateHash (decryptionContexts pendingState 7) = hashState refEngine scenarioResults"
    by (simp add: scenario_pending_fields)
  with bad scenario_request scenario_callback [of 9] show ?thesis by simp
qed

subsection \<open>C5: the cooldown\<close>

text \<open>
  Claim C5, amended. For a provider while the contract is not paused, and with
  \<open>last\<close> the sender's last submission time: when \<open>last + cooldownSeconds\<close> fits in a
  \<^verbatim>\<open>uint256\<close>, the submission reverts with \<open>CooldownActive\<close> exactly when
  \<open>now < last + cooldownSeconds\<close>; when the sum does not fit, the checked addition
  reverts with a panic, so the submission is refused, but not with \<open>CooldownActive\<close>.
  Once \<open>last + cooldownSeconds \<le> now\<close> the submission is accepted if the current batch
  is open. The same holds for a decryption request of the owner on a closed batch,
  with the owner's last request time, and the request is accepted once the cooldown
  has elapsed if the batch's value sum is initialized. A submission writes only the
  sender's submission time and a request only the sender's request time.
\<close>

theorem cooldown_gate:
  "(providers s a \<and> \<not> paused s \<longrightarrow>
      (unat (lastSubmissionTime s a) + unat (cooldownSeconds s) < 2 ^ 256 \<longrightarrow>
         (submitPortfolioData E s a now tv rp ta1 ta2 ca1 ca2 = Inl CooldownActive
            \<longleftrightarrow> unat now < unat (lastSubmissionTime s a) + unat (cooldownSeconds s)))
      \<and> (2 ^ 256 \<le> unat (lastSubmissionTime s a) + unat (cooldownSeconds s) \<longrightarrow>
           submitPortfolioData E s a now tv rp ta1 ta2 ca1 ca2 = Inl Panic)
      \<and> (unat (lastSubmissionTime s a) + unat (cooldownSeconds s) \<le> unat now
           \<and> \<not> batchClosed s (currentBatchId s) \<longrightarrow>
           (\<exists>s'. submitPortfolioData E s a now tv rp ta1 ta2 ca1 ca2 = Inr s')))
   \<and> (a = owner s \<and> \<not> paused s \<and> batchClosed s bid \<longrightarrow>
      (unat (lastDecryptionRequestTime s a) + unat (cooldownSeconds s) < 2 ^ 256 \<longrightarrow>
         (requestBatchDecryption E s a now bid rid = Inl CooldownActive
            \<longleftrightarrow> unat now < unat (lastDecryptionRequestTime s a) + unat (cooldownSeconds s)))
      \<and> (2 ^ 256 \<le> unat (lastDecryptionRequestTime s a) + unat (cooldownSeconds s) \<longrightarrow>
           requestBatchDecryption E s a now bid rid = Inl Panic)
      \<and> (unat (lastDecryptionRequestTime s a) + unat (cooldownSeconds s) \<le> unat now
           \<and> isInitialized E (totalValueSumEncrypted (batchResults s bid)) \<longrightarrow>
           (\<exists>s'. requestBatchDecryption E s a now bid rid = Inr s')))
   \<and> (submitPortfolioData E s a now tv rp ta1 ta2 ca1 ca2 = Inr s1 \<longrightarrow>
        lastSubmissionTime s1 = (lastSubmissionTime s)(a := now)
        \<and> lastDecryptionRequestTime s1 = lastDecryptionRequestTime s)
   \<and> (requestBatchDecryption E s a now bid rid = Inr s2 \<longrightarrow>
        lastDecryptionRequestTime s2 = (lastDecryptionRequestTime s)(a := now)
        \<and> lastSubmissionTime s2 = lastSubmissionTime s)"
proof -
  have sub_active: "submitPortfolioData E s a now tv rp ta1 ta2 ca1 ca2 = Inl CooldownActive
      \<longleftrightarrow> unat now < unat (lastSubmissionTime s a) + unat (cooldownSeconds s)"
    if "providers s a" "\<not> paused s"
      "unat (lastSubmissionTime s a) + unat (cooldownSeconds s) < 2 ^ 256"
    using that checked_add_fits [OF that(3)]
    by (auto simp: submitPortfolioData_def word_less_nat_alt)
  have sub_panic: "submitPortfolioData E s a now tv rp ta1 ta2 ca1 ca2 = Inl Panic"
    if "providers s a" "\<not> paused s"
      "2 ^ 256 \<le> unat (lastSubmissionTime s a) + unat (cooldownSeconds s)"
    using that checked_add_overflow [OF that(3)] by (simp add: submitPortfolioData_def)
  have sub_ok: "\<exists>s'. submitPortfolioData E s a now tv rp ta1 ta2 ca1 ca2 = Inr s'"
    if "providers s a" "\<not> paused s"
      "unat (lastSubmissionTime s a) + unat (cooldownSeconds s) \<le> unat now"
      "\<not> batchClosed s (currentBatchId s)"
    using that checked_add_fits [OF elapsed_fits [OF that(3)]]
    by (auto simp: submitPortfolioData_def word_less_nat_alt)
  have req_active: "requestBatchDecryption E s a now bid rid = Inl CooldownActive
      \<longleftrightarrow> unat now < unat (lastDecryptionRequestTime s a) + unat (cooldownSeconds s)"
    if "a = owner s" "\<not> paused s" "batchClosed s bid"
      "unat (lastDecryptionRequestTime s a) + unat (cooldownSeconds s) < 2 ^ 256"
    using that checked_add_fits [OF that(4)]
    by (auto simp: requestBatchDecryption_def word_less_nat_alt)
  have req_panic: "requestBatchDecryption E s a now bid rid = Inl Panic"
    if "a = owner s" "\<not> paused s" "batchClosed s bid"
      "2 ^ 256 \<le> unat (lastDecryptionRequestTime s a) + unat (cooldownSeconds s)"
    using that checked_add_overflow [OF that(4)] by (simp add: requestBatchDecryption_def)
  have req_ok: "\<exists>s'. requestBatchDecryption E s a now bid rid = Inr s'"
    if "a = owner s" "\<not> paused s" "batchClosed s bid"
      "unat (lastDecryptionRequestTime s a) + unat (cooldownSeconds s) \<le> unat now"
      "isInitialized E (totalValueSumEncrypted (batchResults s bid))"
    using that checked_add_fits [OF elapsed_fits [OF that(4)]]
    by (auto simp: requestBatchDecryption_def word_less_nat_alt)
  have sub_frame: "lastSubmissionTime s1 = (lastSubmissionTime s)(a := now)
        \<and> lastDecryptionRequestTime s1 = lastDecryptionRequestTime s"
    if "submitPortfolioData E s a now tv rp ta1 ta2 ca1 ca2 = Inr s1"
    using that by (auto simp: submitPortfolioData_def split: if_splits sum.splits)
  have req_frame: "lastDecryptionRequestTime s2 = (lastDecryptionRequestTime s)(a := now)
        \<and> lastSubmissionTime s2 = lastSubmissionTime s"
    if "requestBatchDecryption E s a now bid rid = Inr s2"
    using that by (auto simp: requestBatchDecryption_def split: if_splits sum.splits)
  from sub_active sub_panic sub_ok req_active req_panic req_ok sub_frame req_frame
  show ?thesis by blast
qed


text \<open>
  In the scenario provider 2 submitted at time 1000 with a cooldown of 60 seconds: a
  second submission at 1059 is refused with \<open>CooldownActive\<close>, one at 1060 is accepted.
  The owner requested a decryption at time 1200: a second request at 1259 is refused,
  one at 1260 is accepted. The submission left the provider's request time at 0, the
  request left the owner's submission time at 0. With the largest cooldown the
  provider's next submission panics.
\<close>

theorem cooldown_gate_witness:
  "submitPortfolioData refEngine submittedState 2 1059
     (enc 1) (enc 1) (enc 1) (enc 1) (enc 1) (enc 1) = Inl CooldownActive
   \<and> (\<exists>s'. submitPortfolioData refEngine submittedState 2 1060
        (enc 1) (enc 1) (enc 1) (enc 1) (enc 1) (enc 1) = Inr s')
   \<and> lastDecryptionRequestTime submittedState 2 = 0
   \<and> requestBatchDecryption refEngine pendingState 1 1259 1 8 = Inl CooldownActive
   \<and> (\<exists>s'. requestBatchDecryption refEngine pendingState 1 1260 1 8 = Inr s')
   \<and> lastSubmissionTime pendingState 1 = 0
   \<and> submitPortfolioData refEngine overflowState 2 2000
        (enc 1) (enc 1) (enc 1) (enc 1) (enc 1) (enc 1) = Inl Panic"
proof -
  have g: "providers submittedState 2" "\<not> paused submittedState"
    "lastSubmissionTime submittedState 2 = 1000" "cooldownSeconds submittedState = 60"
    "\<not> batchClosed submittedState (currentBatchId submittedState)"
    "lastDecryptionRequestTime submittedState 2 = 0"
    by (simp_all add: submittedState_def openState_def constructor_def)
  from cooldown_gate [where s = submittedState and a = 2 and now = 1059 and E = refEngine
      and tv = "enc 1" and rp = "enc 1" and ?ta1.0 = "enc 1" and ?ta2.0 = "enc 1"
      and ?ca1.0 = "enc 1" and ?ca2.0 = "enc 1"] g
  have early: "submitPortfolioData refEngine submittedState 2 1059
     (enc 1) (enc 1) (enc 1) (enc 1) (enc 1) (enc 1) = Inl CooldownActive"
    by simp
  from cooldown_gate [where s = submittedState and a = 2 and now = 1060 and E = refEngine
      and tv = "enc 1" and rp = "enc 1" and ?ta1.0 = "enc 1" and ?ta2.0 = "enc 1"
      and ?ca1.0 = "enc 1" and ?ca2.0 = "enc 1"] g
  have late: "\<exists>s'. submitPortfolioData refEngine submittedState 2 1060
        (enc 1) (enc 1) (enc 1) (enc 1) (enc 1) (enc 1) = Inr s'"
    by simp
  have p: "owner pendingState = 1" "\<not> paused pendingState" "batchClosed pendingState 1"
    "lastDecryptionRequestTime pendingState 1 = 1200" "cooldownSeconds pendingState = 60"
    "lastSubmissionTime pendingState 1 = 0"
    by (simp_all add: pendingState_def closedState_def submittedState_def openState_def
        constructor_def)
  from cooldown_gate [where s = pendingState and a = 1 and now = 1259 and E = refEngine
      and bid = 1 and rid = 8] p
  have early_request: "requestBatchDecryption refEngine pendingState 1 1259 1 8
      = Inl CooldownActive"
    by simp
  from cooldown_gate [where s = pendingState and a = 1 and now = 1260 and E = refEngine
      and bid = 1 and rid = 8] p scenario_pending_fields(2,3)
  have late_request: "\<exists>s'. requestBatchDecryption refEngine pendingState 1 1260 1 8 = Inr s'"
    by simp
  have v: "providers overflowState 2" "\<not> paused overflowState"
    "lastSubmissionTime overflowState 2 = 1000" "unat (cooldownSeconds overflowState) = 2 ^ 256 - 1"
    by (simp_all add: overflowState_def maxCooldown_def submittedState_def openState_def
        constructor_def)
  from cooldown_gate [where s = overflowState and a = 2 and now = 2000 and E = refEngine
      and tv = "enc 1" and rp = "enc 1" and ?ta1.0 = "enc 1" and ?ta2.0 = "enc 1"
      and ?ca1.0 = "enc 1" and ?ca2.0 = "enc 1"] v
  have overflow: "submitPortfolioData refEngine overflowState 2 2000
        (enc 1) (enc 1) (enc 1) (enc 1) (enc 1) (enc 1) = Inl Panic"
    by simp
  from early late g(6) early_request late_request p(6) overflow show ?thesis by simp
qed

text \<open>
  The claim as stated fails when the sum overflows. After the first submission the
  owner sets the cooldown to \<open>2^256 - 1\<close>. Provider 2 submits again at time 2000, which
  is before \<open>1000 + (2^256 - 1)\<close>: the call reverts with a panic, not with
  \<open>CooldownActive\<close>.
\<close>

theorem cooldown_overflow_counterexample:
  "setCooldownSeconds submittedState 1 maxCooldown = Inr overflowState
   \<and> providers overflowState 2 \<and> \<not> paused overflowState
   \<and> \<not> batchClosed overflowState (currentBatchId overflowState)
   \<and> unat (lastSubmissionTime overflowState 2) = 1000
   \<and> unat (cooldownSeconds overflowState) = 2 ^ 256 - 1
   \<and> submitPortfolioData refEngine overflowState 2 2000
        (enc 1) (enc 1) (enc 1) (enc 1) (enc 1) (enc 1) = Inl Panic"
  by (simp add: setCooldownSeconds_def submitPortfolioData_def overflowState_def
      submittedState_def openState_def constructor_def checked_add_def maxCooldown_def)

subsection \<open>C6: a failed callback\<close>

text \<open>
  Claim C6, amended. A callback that reverts commits nothing. When the revert is not
  \<open>ReplayAttempt\<close>, the request is still unprocessed; after \<open>InvalidProof\<close>, a callback
  for the same request id whose cleartexts and proof \<^verbatim>\<open>FHE.checkSignatures\<close> accepts, with
  the 128 bytes to decode, succeeds in the same state and marks the request processed.
  When the revert is \<open>ReplayAttempt\<close>, the request is already processed, and every
  other callback for the id reverts in the same way.
\<close>

theorem failed_callback_commits_nothing:
  assumes "myCallback E s sender rid cleartexts proof = Inl e"
  shows "exec E s (sender, now, MyCallback rid cleartexts proof) = s
       \<and> (e \<noteq> ReplayAttempt \<longrightarrow> \<not> processed (decryptionContexts s rid))
       \<and> (e = ReplayAttempt \<longrightarrow>
            processed (decryptionContexts s rid)
            \<and> myCallback E s sender' rid cleartexts' proof' = Inl ReplayAttempt)
       \<and> (e = InvalidProof \<and> checkSignatures E rid cleartexts' proof'
             \<and> 128 \<le> length cleartexts' \<longrightarrow>
            (\<exists>s'. myCallback E s sender' rid cleartexts' proof' = Inr s'
                  \<and> processed (decryptionContexts s' rid)))"
  using assms
  by (auto simp: myCallback_def Let_def split: if_splits)

text \<open>
  In the scenario a callback with the wrong proof reverts with \<open>InvalidProof\<close> and
  leaves the pending state as it was; the callback with the right proof then succeeds.
  After that success every callback for the request reverts with \<open>ReplayAttempt\<close> and
  leaves the completed state as it was.
\<close>

theorem failed_callback_commits_nothing_witness:
  "myCallback refEngine pendingState 9 7 scenarioCleartexts [8] = Inl InvalidProof
   \<and> exec refEngine pendingState (9, 2000, MyCallback 7 scenarioCleartexts [8]) = pendingState
   \<and> \<not> processed (decryptionContexts pendingState 7)
   \<and> (\<exists>s'. myCallback refEngine pendingState 9 7 scenarioCleartexts [7] = Inr s'
           \<and> processed (decryptionContexts s' 7))
   \<and> myCallback refEngine completedState 9 7 scenarioCleartexts [7] = Inl ReplayAttempt
   \<and> myCallback refEngine completedState 10 7 [] [] = Inl ReplayAttempt
   \<and> exec refEngine completedState (9, 2000, MyCallback 7 scenarioCleartexts [7])
       = completedState"
proof -
  have f: "myCallback refEngine pendingState 9 7 scenarioCleartexts [8] = Inl InvalidProof"
    by (simp add: myCallback_def Let_def scenario_pending_fields) (simp add: refEngine_def)
  have c: "checkSignatures refEngine 7 scenarioCleartexts [7]"
    by (simp add: refEngine_def)
  from failed_callback_commits_nothing [OF f, of 2000 9 scenarioCleartexts "[7]"] f c
  have invalid: "exec refEngine pendingState (9, 2000, MyCallback 7 scenarioCleartexts [8])
      = pendingState"
    "\<not> processed (decryptionContexts pendingState 7)"
    "\<exists>s'. myCallback refEngine pendingState 9 7 scenarioCleartexts [7] = Inr s'
         \<and> processed (decryptionContexts s' 7)"
    by (simp_all add: length_scenarioCleartexts)
  have r: "myCallback refEngine completedState 9 7 scenarioCleartexts [7] = Inl ReplayAttempt"
    by (simp add: myCallback_def completedState_def)
  from failed_callback_commits_nothing [OF r, of 2000 10 "[]" "[]"]
  have replay: "exec refEngine completedState (9, 2000, MyCallback 7 scenarioCleartexts [7])
      = completedState"
    "myCallback refEngine completedState 10 7 [] [] = Inl ReplayAttempt"
    by simp_all
  from f invalid r replay show ?thesis by simp
qed

text \<open>
  The claim as stated fails at the replay guard: after the successful callback of the
  scenario, a callback for request 7 reverts with \<open>ReplayAttempt\<close> while \<open>processed\<close> is
  true, not "still false", although its cleartexts and proof are the valid ones.
\<close>

theorem failed_callback_replay_counterexample:
  "myCallback refEngine completedState 9 7 scenarioCleartexts [7] = Inl ReplayAttempt
   \<and> processed (decryptionContexts completedState 7)
   \<and> checkSignatures refEngine 7 scenarioCleartexts [7]
   \<and> length scenarioCleartexts = 128"
  by (simp add: myCallback_def completedState_def length_scenarioCleartexts)
    (simp add: refEngine_def)

subsection \<open>C9: the order of the submissions\<close>

text \<open>
  Claim C9. Let the engine's addition be commutative and associative, and let every
  handle it returns be initialized (the seeding of \<^verbatim>\<open>submitPortfolioData\<close> tests the
  value sum with \<^verbatim>\<open>FHE.isInitialized\<close> at every submission). If two sequences of
  submissions are both accepted from the same state and submit the same six-field
  ciphertext tuples in different orders (by whichever senders and at whichever
  times), the accumulators of every batch are the same after both. Each difference
  of target and current allocation is computed inside its own submission.
\<close>

theorem aggregation_order_independent:
  assumes comm: "\<forall>a b. fhe_add E a b = fhe_add E b a"
    and assoc: "\<forall>a b c. fhe_add E (fhe_add E a b) c = fhe_add E a (fhe_add E b c)"
    and init: "\<forall>a b. isInitialized E (fhe_add E a b)"
    and xs: "submitAll E s xs = Inr s1"
    and ys: "submitAll E s ys = Inr s2"
    and perm: "mset (map (snd \<circ> snd) xs) = mset (map (snd \<circ> snd) ys)"
  shows "batchResults s1 = batchResults s2"
proof -
  let ?us = "map (snd \<circ> snd) xs" and ?vs = "map (snd \<circ> snd) ys"
  let ?r = "batchResults s (currentBatchId s)"
  have acc: "fold (accumulateFields E) ?us r0 = fold (accumulateFields E) ?vs r0" for r0
    using accumulateFields_commute [OF comm assoc] perm
    by (intro fold_multiset_equiv [THEN fun_cong]) auto
  have "fold (aggregateFields E) ?us ?r = fold (aggregateFields E) ?vs ?r"
  proof (cases "?us = []")
    case True
    with perm have "?vs = []" by (metis mset_zero_iff)
    with True show ?thesis by simp
  next
    case False
    with perm have nonempty: "?vs \<noteq> []" by (metis mset_zero_iff)
    have "fold (aggregateFields E) ?us ?r = fold (accumulateFields E) ?us (initResults E ?r)"
      using init False by (rule fold_aggregate)
    also have "\<dots> = fold (accumulateFields E) ?vs (initResults E ?r)"
      by (rule acc)
    also have "\<dots> = fold (aggregateFields E) ?vs ?r"
      using init nonempty by (rule fold_aggregate [symmetric])
    finally show ?thesis .
  qed
  with submitAll_results [OF xs] submitAll_results [OF ys] show ?thesis by simp
qed


text \<open>
  Three providers submit in the orders A, B, C and C, A, B on the reference engine:
  both leave the handles of 350, 9, -5 and 5 in batch 1.
\<close>

theorem aggregation_order_independent_witness:
  "map_sum id (\<lambda>s. batchResults s 1) (submitAll refEngine crowdState orderABC)
     = Inr \<lparr>totalValueSumEncrypted = enc 350, riskPreferenceSumEncrypted = enc 9,
            rebalanceAmount1Encrypted = enc (- 5), rebalanceAmount2Encrypted = enc 5\<rparr>
   \<and> map_sum id (\<lambda>s. batchResults s 1) (submitAll refEngine crowdState orderCAB)
     = Inr \<lparr>totalValueSumEncrypted = enc 350, riskPreferenceSumEncrypted = enc 9,
            rebalanceAmount1Encrypted = enc (- 5), rebalanceAmount2Encrypted = enc 5\<rparr>"
proof -
  from crowd_ABC_ok obtain s1 where s1: "submitAll refEngine crowdState orderABC = Inr s1"
    by blast
  from crowd_CAB_ok obtain s2 where s2: "submitAll refEngine crowdState orderCAB = Inr s2"
    by blast
  have r1: "batchResults s1 1 =
         \<lparr>totalValueSumEncrypted = enc 350, riskPreferenceSumEncrypted = enc 9,
          rebalanceAmount1Encrypted = enc (- 5), rebalanceAmount2Encrypted = enc 5\<rparr>"
    using submitAll_results [OF s1] crowd_sum by (simp add: crowd_fields orderABC_def)
  have "batchResults s1 = batchResults s2"
    using refEngine_add_comm refEngine_add_assoc refEngine_add_initialized s1 s2 crowd_perm
    by (rule aggregation_order_independent)
  with s1 s2 r1 show ?thesis by simp
qed

subsection \<open>C10: a transfer of ownership leaves the providers alone\<close>

text \<open>
  Claim C10. A successful \<^verbatim>\<open>transferOwnership(newOwner)\<close> changes the owner and appends
  the event \<open>OwnershipTransferred\<close>, and nothing else: the providers are the same, so
  the previous owner keeps the role if it had it, and a new owner that was not a
  provider is still not one, has its submissions refused with \<open>NotProvider\<close>, and can
  enrol itself with \<^verbatim>\<open>addProvider\<close>. The constructor is where the deployer becomes owner
  and provider.
\<close>

theorem transferOwnership_frame:
  assumes "transferOwnership s sender newOwner = Inr s'"
  shows "s' = s\<lparr>owner := newOwner,
                 events := events s @ [OwnershipTransferred (owner s) newOwner]\<rparr>
       \<and> providers s' = providers s
       \<and> (providers s (owner s) \<longrightarrow> providers s' (owner s))
       \<and> (\<not> providers s newOwner \<longrightarrow>
            \<not> providers s' newOwner
            \<and> submitPortfolioData E s' newOwner now tv rp ta1 ta2 ca1 ca2 = Inl NotProvider
            \<and> (\<exists>s''. addProvider s' newOwner newOwner = Inr s'' \<and> providers s'' newOwner))
       \<and> owner (constructor d) = d \<and> providers (constructor d) = (\<lambda>x. x = d)"
  using assms
  by (auto simp: transferOwnership_def submitPortfolioData_def addProvider_def constructor_def
      split: if_splits)

theorem transferOwnership_frame_witness:
  "transferOwnership (constructor 1) 1 5
     = Inr ((constructor 1)\<lparr>owner := 5,
              events := events (constructor 1) @ [OwnershipTransferred 1 5]\<rparr>)
   \<and> providers ((constructor 1)\<lparr>owner := 5,
        events := events (constructor 1) @ [OwnershipTransferred 1 5]\<rparr>) 1
   \<and> \<not> providers ((constructor 1)\<lparr>owner := 5,
        events := events (constructor 1) @ [OwnershipTransferred 1 5]\<rparr>) 5
   \<and> submitPortfolioData refEngine ((constructor 1)\<lparr>owner := 5,
        events := events (constructor 1) @ [OwnershipTransferred 1 5]\<rparr>) 5 1000
        (enc 1) (enc 1) (enc 1) (enc 1) (enc 1) (enc 1) = Inl NotProvider"
proof -
  have t: "transferOwnership (constructor 1) 1 5
     = Inr ((constructor 1)\<lparr>owner := 5,
              events := events (constructor 1) @ [OwnershipTransferred 1 5]\<rparr>)"
    by (simp add: transferOwnership_def constructor_def)
  have n: "\<not> providers (constructor 1) 5" "providers (constructor 1) 1"
    "owner (constructor 1) = 1"
    by (simp_all add: constructor_def)
  from transferOwnership_frame [OF t, of refEngine 1000 "enc 1" "enc 1" "enc 1" "enc 1"
      "enc 1" "enc 1" 1] t n
  show ?thesis by simp
qed

end
